theory Spec2Isabelle
  imports Main
begin

section \<open>Data model\<close>

text \<open>
  Values of the parsed service responses (the dictionaries that \<open>parse_response\<close>
  produces). A Python dict is an association list in insertion order; its keys are
  unique in a well-formed dict.
\<close>

datatype pyval =
    PNone
  | PBool bool
  | PInt int
  | PStr string
  | PList "pyval list"
  | PDict "(string \<times> pyval) list"

type_synonym pydict = "(string \<times> pyval) list"

text \<open>
  The exceptions that cross the functions of \<open>localstack/services/moto.py\<close>:
  \<open>CommonServiceException(code, message, status_code)\<close> of the framework,
  moto's \<open>RESTError\<close> (with its \<open>error_type\<close>, \<open>message\<close> and \<open>code\<close>),
  the \<open>NotImplementedError\<close> of a provider, Python's \<open>KeyError\<close> and
  \<open>AttributeError\<close>, werkzeug's \<open>NotFound\<close>, and any other exception.
\<close>

datatype exn =
    CommonServiceException pyval pyval int
  | RESTError string string int
  | NotImplementedError
  | KeyError string
  | AttributeError string
  | NotFound
  | OtherException string

text \<open>werkzeug's \<open>Headers\<close>: an ordered multi-dict, a list of (name, value) pairs.\<close>

type_synonym headers = "(string \<times> string) list"

definition headers_add :: "headers \<Rightarrow> string \<Rightarrow> string \<Rightarrow> headers" where
  "headers_add hs k v = hs @ [(k, v)]"

definition headers_extend :: "headers \<Rightarrow> headers \<Rightarrow> headers" where
  "headers_extend hs other = hs @ other"

record http_request =
  http_method :: string
  path :: string
  url :: string
  headers :: headers
  data :: string

text \<open>\<open>RequestContext\<close>: \<open>service.service_name\<close>, \<open>operation.name\<close>, \<open>region\<close>, \<open>request\<close>.\<close>

record request_context =
  service_name :: string
  operation :: string
  region :: string
  request :: http_request

text \<open>\<open>MotoResponse = HttpBackendResponse\<close>: the triple (status, headers, content).\<close>

type_synonym moto_response = "int \<times> headers \<times> string"

text \<open>\<open>MotoDispatcher = Callable[[HttpRequest, str, dict], MotoResponse]\<close>; a call may raise.\<close>

type_synonym moto_dispatcher = "http_request \<Rightarrow> string \<Rightarrow> headers \<Rightarrow> exn + moto_response"

text \<open>\<open>Response(content, status, headers)\<close> and \<open>HttpResponse(response, status, headers)\<close>.\<close>

record http_response =
  response :: string
  status :: int
  resp_headers :: headers

definition Response :: "string \<Rightarrow> int \<Rightarrow> headers \<Rightarrow> http_response" where
  "Response content st hs = \<lparr>response = content, status = st, resp_headers = hs\<rparr>"

text \<open>What a \<open>ServiceRequestHandler\<close> returns: a parsed service response or an HTTP response.\<close>

datatype handler_result = ServiceResponse pydict | HttpResponse http_response

subsection \<open>The routing table (werkzeug's \<open>Map\<close> of \<open>Rule\<close>s)\<close>

record 'h rule =
  url_path :: string
  endpoint :: 'h
  strict_slashes :: bool

definition Rule :: "string \<Rightarrow> 'h \<Rightarrow> bool \<Rightarrow> 'h rule" where
  "Rule p e s = \<lparr>url_path = p, endpoint = e, strict_slashes = s\<rparr>"

text \<open>
  \<open>rules\<close> is \<open>Map._rules\<close>, in the order of the \<open>add\<close> calls; \<open>converters\<close>
  names the converters registered on the map beyond werkzeug's default ones.
\<close>

record 'h url_map =
  rules :: "'h rule list"
  converters :: "string list"

definition Map_empty :: "'h url_map" where
  "Map_empty = \<lparr>rules = [], converters = []\<rparr>"

definition map_add :: "'h url_map \<Rightarrow> 'h rule \<Rightarrow> 'h url_map" where
  "map_add m r = m\<lparr>rules := rules m @ [r]\<rparr>"

subsection \<open>The backend engine\<close>

text \<open>A moto backend instance exposes \<open>flask_paths\<close>, a dict from URL pattern to handler.\<close>

record 'h backend =
  flask_paths :: "(string \<times> 'h) list"

text \<open>
  What \<open>moto_backends.get_backend\<close> returns: a \<open>BackendDict\<close> (account id, then region,
  then backend) or a plain dict from region to backend.
\<close>

datatype 'h backend_dict =
    BackendDict "(string \<times> (string \<times> 'h backend) list) list"
  | PlainDict "(string \<times> 'h backend) list"

text \<open>Python's \<open>d[k]\<close>: a missing key raises \<open>KeyError\<close>.\<close>

definition getitem :: "(string \<times> 'v) list \<Rightarrow> string \<Rightarrow> exn + 'v" where
  "getitem d k = (case map_of d k of None \<Rightarrow> Inl (KeyError k) | Some v \<Rightarrow> Inr v)"

text \<open>
  The collaborators that \<open>moto.py\<close> imports, fixed for the life of the process:
  \<open>moto_backends.get_backend\<close> (a registry of services; an unknown name raises),
  \<open>DEFAULT_AWS_ACCOUNT_ID\<close>, \<open>get_aws_account_id()\<close>, the test whether one rule of
  a werkzeug map (its pattern and its \<open>strict_slashes\<close>) matches a path,
  \<open>parse_response\<close> and \<open>create_aws_request_context\<close>.
\<close>

record 'h moto_env =
  get_backend :: "(string \<times> 'h backend_dict) list"
  DEFAULT_AWS_ACCOUNT_ID :: string
  get_aws_account_id :: string
  rule_matches :: "string \<Rightarrow> bool \<Rightarrow> string \<Rightarrow> bool"
  parse_response :: "string \<Rightarrow> http_response \<Rightarrow> pydict"
  create_aws_request_context :: "string \<Rightarrow> string \<Rightarrow> pydict \<Rightarrow> string \<Rightarrow> request_context"

section \<open>The routing table builder and its cache\<close>

text \<open>
  \<open>load_moto_routing_table\<close>: select one backend instance (\<open>select_backend\<close>, the
  \<open>if\<close> of lines 169 to 175), then add one rule per entry of its \<open>flask_paths\<close>, with
  \<open>strict_slashes\<close> disabled (\<open>add_rules\<close>, the loop of lines 180 to 190), to a map
  that knows the \<open>regex\<close> converter.
\<close>

definition select_backend :: "'h moto_env \<Rightarrow> 'h backend_dict \<Rightarrow> exn + 'h backend" where
  "select_backend env backend_dict =
     (case backend_dict of
        BackendDict d \<Rightarrow>
          (case getitem d (DEFAULT_AWS_ACCOUNT_ID env) of
             Inl e \<Rightarrow> Inl e
           | Inr regions \<Rightarrow>
               if ''us-east-1'' \<in> set (map fst regions) then getitem regions ''us-east-1''
               else getitem regions ''global'')
      | PlainDict d \<Rightarrow> getitem d ''global'')"

definition add_rules :: "'h url_map \<Rightarrow> (string \<times> 'h) list \<Rightarrow> 'h url_map" where
  "add_rules m items =
     foldl (\<lambda>m (url_path, handler). map_add m (Rule url_path handler False)) m items"

definition load_moto_routing_table :: "'h moto_env \<Rightarrow> string \<Rightarrow> exn + 'h url_map" where
  "load_moto_routing_table env service =
     (case getitem (get_backend env) service of
        Inl e \<Rightarrow> Inl e
      | Inr backend_dict \<Rightarrow>
          (case select_backend env backend_dict of
             Inl e \<Rightarrow> Inl e
           | Inr backend \<Rightarrow>
               Inr (add_rules (Map_empty\<lparr>converters := [''regex'']\<rparr>) (flask_paths backend))))"

text \<open>
  \<open>@lru_cache()\<close>: the cache of \<open>functools\<close> with its default \<open>maxsize\<close> of 128, keyed by
  the service name, most recently used first. A hit returns the stored table and moves
  the entry to the front; a miss calls the builder, stores the table in front and drops
  the least recently used entry when the cache is full; an exception of the builder is
  not stored.
\<close>

type_synonym 'h table_cache = "(string \<times> 'h url_map) list"

definition lru_maxsize :: nat where
  "lru_maxsize = 128"

definition get_moto_routing_table ::
    "'h moto_env \<Rightarrow> 'h table_cache \<Rightarrow> string \<Rightarrow> (exn + 'h url_map) \<times> 'h table_cache" where
  "get_moto_routing_table env cache service =
     (case map_of cache service of
        Some url_map \<Rightarrow> (Inr url_map, (service, url_map) # filter (\<lambda>kv. fst kv \<noteq> service) cache)
      | None \<Rightarrow>
          (case load_moto_routing_table env service of
             Inl e \<Rightarrow> (Inl e, cache)
           | Inr url_map \<Rightarrow> (Inr url_map, take lru_maxsize ((service, url_map) # cache))))"




section \<open>The dispatcher resolver\<close>

text \<open>
  Modelled from the spec: \<open>MapAdapter.match\<close> of werkzeug, which \<open>get_dispatcher\<close>
  calls on the map bound to the host name, is not among the sources. Section 4.3 of the
  specification: the path is matched against the patterns of the table in registration
  order and the handler of the first matching entry is returned; when no pattern
  matches, the call fails (werkzeug's \<open>NotFound\<close>).
\<close>

definition match :: "'h moto_env \<Rightarrow> 'h url_map \<Rightarrow> string \<Rightarrow> exn + 'h" where
  "match env url_map path_info =
     (case find (\<lambda>r. rule_matches env (url_path r) (strict_slashes r) path_info) (rules url_map) of
        None \<Rightarrow> Inl NotFound
      | Some r \<Rightarrow> Inr (endpoint r))"

definition get_dispatcher ::
    "'h moto_env \<Rightarrow> 'h table_cache \<Rightarrow> string \<Rightarrow> string \<Rightarrow> (exn + 'h) \<times> 'h table_cache" where
  "get_dispatcher env cache service path_info =
     (case get_moto_routing_table env cache service of
        (Inl e, cache') \<Rightarrow> (Inl e, cache')
      | (Inr url_map, cache') \<Rightarrow>
          if length (rules url_map) = 1 then (Inr (endpoint (hd (rules url_map))), cache')
          else (match env url_map path_info, cache'))"

section \<open>The dispatch executor\<close>

text \<open>
  The request that reaches the handler: \<open>dispatch_to_moto\<close> first appends the header
  \<open>x-moto-account-id\<close> to the headers of the request of the context (in place, so the
  caller's context carries it afterwards).
\<close>

definition moto_request :: "'h moto_env \<Rightarrow> request_context \<Rightarrow> http_request" where
  "moto_request env context =
     (request context)\<lparr>headers :=
        headers_add (headers (request context)) ''x-moto-account-id'' (get_aws_account_id env)\<rparr>"

type_synonym 'a outcome = "(exn + 'a) \<times> moto_dispatcher table_cache \<times> request_context"

text \<open>
  The result is the outcome of the call, the cache afterwards and the context afterwards.
  When the resolver raises, the header has not been added yet.
\<close>

definition dispatch_to_moto ::
    "moto_dispatcher moto_env \<Rightarrow> moto_dispatcher table_cache \<Rightarrow> request_context
      \<Rightarrow> moto_response outcome" where
  "dispatch_to_moto env cache context =
     (case get_dispatcher env cache (service_name context) (path (request context)) of
        (Inl e, cache') \<Rightarrow> (Inl e, cache', context)
      | (Inr dispatch, cache') \<Rightarrow>
          (let request' = moto_request env context;
               context' = context\<lparr>request := request'\<rparr>
           in case dispatch request' (url request') (headers request') of
                Inr r \<Rightarrow> (Inr r, cache', context')
              | Inl (RESTError error_type message code) \<Rightarrow>
                  (Inl (CommonServiceException (PStr error_type) (PStr message) code),
                   cache', context')
              | Inl e \<Rightarrow> (Inl e, cache', context')))"

section \<open>The response translator\<close>

text \<open>Python's \<open>d.get(k, default)\<close> and \<open>d.pop(k, None)\<close> (the popped value is dropped).\<close>

definition dict_get :: "pydict \<Rightarrow> string \<Rightarrow> pyval \<Rightarrow> pyval" where
  "dict_get d k dflt = (case map_of d k of None \<Rightarrow> dflt | Some v \<Rightarrow> v)"

definition dict_pop :: "pydict \<Rightarrow> string \<Rightarrow> pydict" where
  "dict_pop d k = filter (\<lambda>kv. fst kv \<noteq> k) d"

text \<open>
  The exception of lines 55 to 59, from \<open>error = response["Error"]\<close> and the status;
  \<open>error.get\<close> exists only when \<open>error\<close> is a dict.
\<close>

definition raise_error :: "pyval \<Rightarrow> int \<Rightarrow> exn" where
  "raise_error error st =
     (case error of
        PDict d \<Rightarrow>
          CommonServiceException (dict_get d ''Code'' (PStr ''UnknownError''))
            (dict_get d ''Message'' (PStr [])) st
      | _ \<Rightarrow> AttributeError ''get'')"

definition call_moto ::
    "moto_dispatcher moto_env \<Rightarrow> moto_dispatcher table_cache \<Rightarrow> request_context \<Rightarrow> bool
      \<Rightarrow> pydict outcome" where
  "call_moto env cache context include_response_metadata =
     (case dispatch_to_moto env cache context of
        (Inl e, cache', context') \<Rightarrow> (Inl e, cache', context')
      | (Inr (st, hs, content), cache', context') \<Rightarrow>
          (let response = parse_response env (operation context') (Response content st hs)
           in if st \<ge> 301 then
                (case getitem response ''Error'' of
                   Inl e \<Rightarrow> (Inl e, cache', context')
                 | Inr error \<Rightarrow> (Inl (raise_error error st), cache', context'))
              else if \<not> include_response_metadata then
                (Inr (dict_pop response ''ResponseMetadata''), cache', context')
              else (Inr response, cache', context')))"

text \<open>
  \<open>call_moto_with_request\<close>: the local context is built from the new parameters, the
  headers of the old request are appended to its headers (\<open>Headers.extend\<close>), and
  \<open>call_moto\<close> runs on it. \<open>local_context\<close> is that context before the call; the
  caller's context is not touched, and the third component of the result is the local
  context after the call.
\<close>

definition local_context ::
    "'h moto_env \<Rightarrow> request_context \<Rightarrow> pydict \<Rightarrow> request_context" where
  "local_context env context service_request =
     (let lc = create_aws_request_context env (service_name context) (operation context)
                 service_request (region context)
      in lc\<lparr>request := (request lc)\<lparr>headers :=
            headers_extend (headers (request lc)) (headers (request context))\<rparr>\<rparr>)"

definition call_moto_with_request ::
    "moto_dispatcher moto_env \<Rightarrow> moto_dispatcher table_cache \<Rightarrow> request_context \<Rightarrow> pydict
      \<Rightarrow> pydict outcome" where
  "call_moto_with_request env cache context service_request =
     call_moto env cache (local_context env context service_request) False"

definition proxy_moto ::
    "moto_dispatcher moto_env \<Rightarrow> moto_dispatcher table_cache \<Rightarrow> request_context \<Rightarrow> pydict
      \<Rightarrow> handler_result outcome" where
  "proxy_moto env cache context service_request =
     (case dispatch_to_moto env cache context of
        (Inl e, cache', context') \<Rightarrow> (Inl e, cache', context')
      | (Inr (st, hs, content), cache', context') \<Rightarrow>
          (Inr (HttpResponse \<lparr>response = content, status = st, resp_headers = hs\<rparr>),
           cache', context'))"

section \<open>The fallback wrapper\<close>

text \<open>
  A provider: for each operation it exposes, a method of the context and the service
  request that returns a result or raises. A dispatch table: for each operation, a
  handler that also sees the routing cache.
\<close>

type_synonym provider = "string \<Rightarrow> (request_context \<Rightarrow> pydict \<Rightarrow> exn + handler_result) option"

type_synonym dispatch_table =
  "string \<Rightarrow> (moto_dispatcher table_cache \<Rightarrow> request_context \<Rightarrow> pydict
     \<Rightarrow> handler_result outcome) option"

text \<open>
  Modelled from the spec: \<open>ForwardingFallbackDispatcher\<close> of \<open>localstack.aws.forwarder\<close>
  is not among the sources. Section 4.6 of the specification: for every operation method
  of the provider, a method that first invokes the original method; if that raises the
  "operation not implemented" signal, it invokes the forwarder instead; any other
  exception, and any result, is passed on unchanged.
\<close>

definition ForwardingFallbackDispatcher ::
    "provider \<Rightarrow> (moto_dispatcher table_cache \<Rightarrow> request_context \<Rightarrow> pydict
        \<Rightarrow> handler_result outcome) \<Rightarrow> dispatch_table" where
  "ForwardingFallbackDispatcher prov request_forwarder op =
     (case prov op of
        None \<Rightarrow> None
      | Some fn \<Rightarrow>
          Some (\<lambda>cache context service_request.
            case fn context service_request of
              Inl NotImplementedError \<Rightarrow> request_forwarder cache context service_request
            | r \<Rightarrow> (r, cache, context)))"

definition MotoFallbackDispatcher :: "moto_dispatcher moto_env \<Rightarrow> provider \<Rightarrow> dispatch_table" where
  "MotoFallbackDispatcher env prov = ForwardingFallbackDispatcher prov (proxy_moto env)"

section \<open>An example environment\<close>

text \<open>
  Three handlers, two backends and a registry of three services, used to run the
  functions above on concrete requests. The example matcher accepts a path that starts
  with the pattern.
\<close>

definition example_ok :: moto_dispatcher where
  "example_ok req u hs = Inr (200, [(''Content-Type'', ''application/json'')], ''ok'')"

definition example_bad_request :: moto_dispatcher where
  "example_bad_request req u hs = Inr (400, [], ''bad'')"

definition example_no_such_bucket :: moto_dispatcher where
  "example_no_such_bucket req u hs =
     Inl (RESTError ''NoSuchBucket'' ''The specified bucket does not exist'' 404)"

definition example_crash :: moto_dispatcher where
  "example_crash req u hs = Inl (OtherException ''TypeError'')"

definition example_sqs :: "moto_dispatcher backend" where
  "example_sqs = \<lparr>flask_paths = [(''/'', example_ok)]\<rparr>"

definition example_s3 :: "moto_dispatcher backend" where
  "example_s3 = \<lparr>flask_paths =
     [(''/ok'', example_ok), (''/bad'', example_bad_request), (''/'', example_no_such_bucket)]\<rparr>"

definition example_parse_response :: "string \<Rightarrow> http_response \<Rightarrow> pydict" where
  "example_parse_response op resp =
     (if 301 \<le> status resp
      then [(''Error'', PDict [(''Code'', PStr ''Foo''), (''Message'', PStr ''bar'')]),
            (''ResponseMetadata'', PDict [])]
      else [(''QueueUrl'', PStr (response resp)), (''ResponseMetadata'', PDict [])])"

definition example_create_context :: "string \<Rightarrow> string \<Rightarrow> pydict \<Rightarrow> string \<Rightarrow> request_context" where
  "example_create_context service action parameters reg =
     \<lparr>service_name = service, operation = action, region = reg,
      request = \<lparr>http_method = ''POST'', path = ''/ok'', url = ''http://localhost:4566/ok'',
                 headers = [(''Content-Type'', ''application/x-amz-json-1.0'')], data = []\<rparr>\<rparr>"

definition example_env :: "moto_dispatcher moto_env" where
  "example_env =
     \<lparr>get_backend =
        [(''sqs'', PlainDict [(''global'', example_sqs)]),
         (''s3'', BackendDict [(''000000000000'', [(''global'', example_s3)])]),
         (''sns'', BackendDict [(''000000000000'',
                     [(''global'', example_s3), (''us-east-1'', example_sqs)])]),
         (''ec2'', PlainDict [(''global'', \<lparr>flask_paths = [(''/'', example_crash)]\<rparr>)])],
      DEFAULT_AWS_ACCOUNT_ID = ''000000000000'',
      get_aws_account_id = ''000000000000'',
      rule_matches = (\<lambda>pattern strict path_info. take (length pattern) path_info = pattern),
      parse_response = example_parse_response,
      create_aws_request_context = example_create_context\<rparr>"

text \<open>The same environment with a parser whose result has no \<open>Error\<close> entry.\<close>

definition example_env_no_error :: "moto_dispatcher moto_env" where
  "example_env_no_error =
     example_env\<lparr>parse_response := \<lambda>op resp. [(''ResponseMetadata'', PDict [])]\<rparr>"

definition example_table :: "moto_dispatcher backend \<Rightarrow> moto_dispatcher url_map" where
  "example_table b =
     \<lparr>rules = map (\<lambda>(p, h). \<lparr>url_path = p, endpoint = h, strict_slashes = False\<rparr>) (flask_paths b),
      converters = [''regex'']\<rparr>"

definition example_context :: "string \<Rightarrow> string \<Rightarrow> request_context" where
  "example_context service p =
     \<lparr>service_name = service, operation = ''Op'', region = ''eu-west-1'',
      request = \<lparr>http_method = ''GET'', path = p, url = ''http://localhost:4566'' @ p,
                 headers = [(''Host'', ''localhost:4566''), (''X-Trace'', ''abc'')], data = []\<rparr>\<rparr>"




definition example_provider :: provider where
  "example_provider =
     [''ListQueues'' \<mapsto> (\<lambda>context service_request. Inr (ServiceResponse [(''QueueUrls'', PList [])])),
      ''CreateQueue'' \<mapsto> (\<lambda>context service_request. Inl NotImplementedError)]"

section \<open>Dictionaries and the builder\<close>

lemma getitem_Some: "map_of d k = Some v \<Longrightarrow> getitem d k = Inr v"
  by (simp add: getitem_def)

lemma getitem_None: "map_of d k = None \<Longrightarrow> getitem d k = Inl (KeyError k)"
  by (simp add: getitem_def)

lemma getitem_Inl: "getitem d k = Inl e \<Longrightarrow> e = KeyError k"
  by (simp add: getitem_def split: option.splits)

lemma getitem_not_rest: "getitem d k \<noteq> Inl (RESTError t m c)"
  by (simp add: getitem_def split: option.splits)

lemma rules_add_rules:
  "rules (add_rules m items) = rules m @ map (\<lambda>(p, h). Rule p h False) items"
  unfolding add_rules_def
  by (induction items arbitrary: m) (auto simp: map_add_def)

lemma converters_add_rules: "converters (add_rules m items) = converters m"
  unfolding add_rules_def
  by (induction items arbitrary: m) (auto simp: map_add_def)

lemma add_rules_eq:
  "add_rules m items = m\<lparr>rules := rules m @ map (\<lambda>(p, h). Rule p h False) items\<rparr>"
  by (rule url_map.equality) (simp_all add: rules_add_rules converters_add_rules)

text \<open>The builder and the cache never consult the matcher.\<close>

lemma select_backend_rule_matches:
  "select_backend (env\<lparr>rule_matches := m\<rparr>) d = select_backend env d"
  by (simp add: select_backend_def split: backend_dict.splits)

lemma load_rule_matches:
  "load_moto_routing_table (env\<lparr>rule_matches := m\<rparr>) s = load_moto_routing_table env s"
  by (simp add: load_moto_routing_table_def select_backend_rule_matches split: sum.splits)

lemma get_table_rule_matches:
  "get_moto_routing_table (env\<lparr>rule_matches := m\<rparr>) cache s = get_moto_routing_table env cache s"
  by (simp add: get_moto_routing_table_def load_rule_matches split: option.splits)


lemma get_moto_routing_table_miss:
  assumes "map_of cache service = None"
  shows "fst (get_moto_routing_table env cache service) = load_moto_routing_table env service"
  using assms by (simp add: get_moto_routing_table_def split: sum.splits)

lemma get_moto_routing_table_stored:
  assumes "get_moto_routing_table env cache service = (Inr url_map, cache')"
  shows "get_moto_routing_table env' cache' service =
           (Inr url_map, (service, url_map) # filter (\<lambda>kv. fst kv \<noteq> service) cache')"
proof -
  from assms have "map_of cache' service = Some url_map"
    by (auto simp: get_moto_routing_table_def lru_maxsize_def split: option.splits sum.splits)
  then show ?thesis by (simp add: get_moto_routing_table_def)
qed

lemma example_load:
  "load_moto_routing_table example_env ''sqs'' = Inr (example_table example_sqs)"
  "load_moto_routing_table example_env ''s3'' = Inr (example_table example_s3)"
  "load_moto_routing_table example_env ''sns'' = Inr (example_table example_sqs)"
  by (simp_all add: load_moto_routing_table_def example_env_def getitem_def select_backend_def
      add_rules_eq Map_empty_def Rule_def example_table_def)

lemma example_get_table:
  "get_moto_routing_table example_env [] ''sqs'' =
     (Inr (example_table example_sqs), [(''sqs'', example_table example_sqs)])"
  "get_moto_routing_table example_env [] ''s3'' =
     (Inr (example_table example_s3), [(''s3'', example_table example_s3)])"
  by (simp_all add: get_moto_routing_table_def example_load lru_maxsize_def)

text \<open>
  C9. For a service known to the engine, \<open>load_moto_routing_table\<close> selects one backend
  instance: from a \<open>BackendDict\<close>, the one under the default account and \<open>us-east-1\<close>
  when that region is present, otherwise the one under the default account and
  \<open>global\<close>; from a plain dict, the one under \<open>global\<close>. Every entry of the
  \<open>flask_paths\<close> of the selected instance becomes one rule of the table, in order, with
  its pattern, its handler and \<open>strict_slashes\<close> disabled.
\<close>

theorem load_moto_routing_table_selection:
  assumes "map_of (get_backend env) service = Some backend_dict"
  shows "(\<forall>d regions b.
            backend_dict = BackendDict d \<and> map_of d (DEFAULT_AWS_ACCOUNT_ID env) = Some regions \<and>
            map_of regions ''us-east-1'' = Some b \<longrightarrow>
            load_moto_routing_table env service =
              Inr \<lparr>rules = map (\<lambda>(p, h). \<lparr>url_path = p, endpoint = h, strict_slashes = False\<rparr>)
                             (flask_paths b),
                   converters = [''regex'']\<rparr>) \<and>
         (\<forall>d regions b.
            backend_dict = BackendDict d \<and> map_of d (DEFAULT_AWS_ACCOUNT_ID env) = Some regions \<and>
            map_of regions ''us-east-1'' = None \<and> map_of regions ''global'' = Some b \<longrightarrow>
            load_moto_routing_table env service =
              Inr \<lparr>rules = map (\<lambda>(p, h). \<lparr>url_path = p, endpoint = h, strict_slashes = False\<rparr>)
                             (flask_paths b),
                   converters = [''regex'']\<rparr>) \<and>
         (\<forall>d b.
            backend_dict = PlainDict d \<and> map_of d ''global'' = Some b \<longrightarrow>
            load_moto_routing_table env service =
              Inr \<lparr>rules = map (\<lambda>(p, h). \<lparr>url_path = p, endpoint = h, strict_slashes = False\<rparr>)
                             (flask_paths b),
                   converters = [''regex'']\<rparr>)"
proof -
  have table: "add_rules (Map_empty\<lparr>converters := [''regex'']\<rparr>) (flask_paths b) =
      \<lparr>rules = map (\<lambda>(p, h). \<lparr>url_path = p, endpoint = h, strict_slashes = False\<rparr>) (flask_paths b),
       converters = [''regex'']\<rparr>" for b :: "'a backend"
    by (simp add: add_rules_eq Map_empty_def Rule_def)
  have in_dom: "k \<in> fst ` set regions \<longleftrightarrow> map_of regions k \<noteq> None"
    for k and regions :: "(string \<times> 'a backend) list"
    by (simp add: map_of_eq_None_iff)
  from assms have reg: "getitem (get_backend env) service = Inr backend_dict"
    by (rule getitem_Some)
  show ?thesis
    by (auto simp: load_moto_routing_table_def reg select_backend_def getitem_Some table in_dom)
qed

theorem load_moto_routing_table_selection_witness:
  "map_of (get_backend example_env) ''sns'' =
     Some (BackendDict [(''000000000000'', [(''global'', example_s3), (''us-east-1'', example_sqs)])]) \<and>
   load_moto_routing_table example_env ''sns'' =
     Inr \<lparr>rules = [\<lparr>url_path = ''/'', endpoint = example_ok, strict_slashes = False\<rparr>],
          converters = [''regex'']\<rparr>"
proof -
  have r: "map_of (get_backend example_env) ''sns'' =
     Some (BackendDict [(''000000000000'', [(''global'', example_s3), (''us-east-1'', example_sqs)])])"
    by (simp add: example_env_def)
  from load_moto_routing_table_selection [OF r] r show ?thesis
    by (simp add: example_env_def example_sqs_def)
qed

section \<open>The resolver\<close>

text \<open>
  C5. When the routing table of the service has exactly one rule, \<open>get_dispatcher\<close>
  returns the endpoint of that rule for every path and whatever the matcher would say
  of the path: the matcher \<open>m\<close> is arbitrary, also one that rejects every path.
\<close>

theorem get_dispatcher_single_rule:
  assumes "get_moto_routing_table env cache service = (Inr url_map, cache')"
    and "rules url_map = [r]"
  shows "get_dispatcher (env\<lparr>rule_matches := m\<rparr>) cache service path_info =
           (Inr (endpoint r), cache')"
  using assms by (simp add: get_dispatcher_def get_table_rule_matches)

theorem get_dispatcher_single_rule_witness:
  "get_moto_routing_table example_env [] ''sqs'' =
     (Inr (example_table example_sqs), [(''sqs'', example_table example_sqs)]) \<and>
   rules (example_table example_sqs) =
     [\<lparr>url_path = ''/'', endpoint = example_ok, strict_slashes = False\<rparr>] \<and>
   get_dispatcher (example_env\<lparr>rule_matches := \<lambda>pattern strict path_info. False\<rparr>) []
     ''sqs'' ''not a path'' = (Inr example_ok, [(''sqs'', example_table example_sqs)])"
proof -
  have r: "rules (example_table example_sqs) =
     [\<lparr>url_path = ''/'', endpoint = example_ok, strict_slashes = False\<rparr>]"
    by (simp add: example_table_def example_sqs_def)
  from get_dispatcher_single_rule [OF example_get_table(1) r] example_get_table(1) r
  show ?thesis by simp
qed

lemma find_first_index:
  assumes "i < length xs" and "P (xs ! i)" and "\<forall>j<i. \<not> P (xs ! j)"
  shows "find P xs = Some (xs ! i)"
  using assms by (auto simp: find_Some_iff)

text \<open>
  C4. When the routing table of the service has two or more rules and the path matches
  the pattern of rule \<open>i\<close> and of no rule registered before it, \<open>get_dispatcher\<close>
  returns the endpoint registered with rule \<open>i\<close>.
\<close>

theorem get_dispatcher_first_match:
  assumes "get_moto_routing_table env cache service = (Inr url_map, cache')"
    and "2 \<le> length (rules url_map)"
    and "i < length (rules url_map)"
    and "rule_matches env (url_path (rules url_map ! i)) (strict_slashes (rules url_map ! i))
           path_info"
    and "\<forall>j<i. \<not> rule_matches env (url_path (rules url_map ! j))
                    (strict_slashes (rules url_map ! j)) path_info"
  shows "get_dispatcher env cache service path_info =
           (Inr (endpoint (rules url_map ! i)), cache')"
proof -
  have "find (\<lambda>r. rule_matches env (url_path r) (strict_slashes r) path_info) (rules url_map)
          = Some (rules url_map ! i)"
    using assms(3-5) by (intro find_first_index) auto
  with assms(1,2) show ?thesis
    by (simp add: get_dispatcher_def match_def)
qed

theorem get_dispatcher_first_match_witness:
  "get_moto_routing_table example_env [] ''s3'' =
     (Inr (example_table example_s3), [(''s3'', example_table example_s3)]) \<and>
   2 \<le> length (rules (example_table example_s3)) \<and>
   rule_matches example_env ''/bad'' False ''/bad/key'' \<and>
   \<not> rule_matches example_env ''/ok'' False ''/bad/key'' \<and>
   rule_matches example_env ''/'' False ''/bad/key'' \<and>
   get_dispatcher example_env [] ''s3'' ''/bad/key'' =
     (Inr example_bad_request, [(''s3'', example_table example_s3)])"
proof -
  have l: "2 \<le> length (rules (example_table example_s3))"
    by (simp add: example_table_def example_s3_def)
  have i: "1 < length (rules (example_table example_s3))"
    by (simp add: example_table_def example_s3_def)
  have m: "rule_matches example_env (url_path (rules (example_table example_s3) ! 1))
             (strict_slashes (rules (example_table example_s3) ! 1)) ''/bad/key''"
    by (simp add: example_table_def example_s3_def example_env_def)
  have n: "\<forall>j<1. \<not> rule_matches example_env (url_path (rules (example_table example_s3) ! j))
             (strict_slashes (rules (example_table example_s3) ! j)) ''/bad/key''"
    by (simp add: example_table_def example_s3_def example_env_def)
  from get_dispatcher_first_match [OF example_get_table(2) l i m n] example_get_table(2) l
  show ?thesis
    by (simp add: example_table_def example_s3_def example_env_def)
qed

section \<open>The executor\<close>

lemma select_backend_not_rest: "select_backend env d \<noteq> Inl (RESTError t m c)"
  by (auto simp: select_backend_def split: backend_dict.splits sum.splits if_splits
      dest: getitem_Inl)

lemma load_not_rest: "load_moto_routing_table env s \<noteq> Inl (RESTError t m c)"
  by (auto simp: load_moto_routing_table_def getitem_not_rest select_backend_not_rest
      split: sum.splits)

lemma get_table_not_rest: "fst (get_moto_routing_table env cache s) \<noteq> Inl (RESTError t m c)"
  by (auto simp: get_moto_routing_table_def load_not_rest split: option.splits sum.splits)

lemma match_not_rest: "match env url_map p \<noteq> Inl (RESTError t m c)"
  by (simp add: match_def split: option.splits)

lemma get_dispatcher_not_rest: "fst (get_dispatcher env cache s p) \<noteq> Inl (RESTError t m c)"
proof (cases "get_moto_routing_table env cache s")
  case (Pair r cache')
  with get_table_not_rest [of env cache s t m c] show ?thesis
    by (cases r) (auto simp: get_dispatcher_def match_not_rest)
qed

text \<open>The two paths through \<open>dispatch_to_moto\<close>: the resolver raised, or it found a handler.\<close>

lemma dispatch_to_moto_unresolved:
  assumes "get_dispatcher env cache (service_name ctx) (path (request ctx)) = (Inl e, cache')"
  shows "dispatch_to_moto env cache ctx = (Inl e, cache', ctx)"
  using assms by (simp add: dispatch_to_moto_def)

lemma dispatch_to_moto_resolved:
  assumes "get_dispatcher env cache (service_name ctx) (path (request ctx)) = (Inr dispatch, cache')"
  shows "dispatch_to_moto env cache ctx =
     (case dispatch (moto_request env ctx) (url (moto_request env ctx))
              (headers (moto_request env ctx)) of
        Inr r \<Rightarrow> Inr r
      | Inl (RESTError error_type message code) \<Rightarrow>
          Inl (CommonServiceException (PStr error_type) (PStr message) code)
      | Inl e \<Rightarrow> Inl e,
      cache', ctx\<lparr>request := moto_request env ctx\<rparr>)"
  using assms by (simp add: dispatch_to_moto_def Let_def split: sum.splits exn.splits)

lemma example_get_dispatcher:
  "get_dispatcher example_env [] ''s3'' ''/ok'' =
     (Inr example_ok, [(''s3'', example_table example_s3)])"
  "get_dispatcher example_env [] ''s3'' ''/bad'' =
     (Inr example_bad_request, [(''s3'', example_table example_s3)])"
  "get_dispatcher example_env [] ''s3'' ''/'' =
     (Inr example_no_such_bucket, [(''s3'', example_table example_s3)])"
  by (simp_all add: get_dispatcher_def example_get_table match_def)
     (simp_all add: example_env_def example_table_def example_s3_def)

lemma example_get_dispatcher_no_error:
  "get_dispatcher example_env_no_error [] ''s3'' ''/bad'' =
     (Inr example_bad_request, [(''s3'', example_table example_s3)])"
  by (simp add: get_dispatcher_def get_moto_routing_table_def load_moto_routing_table_def
      example_env_no_error_def example_env_def getitem_def select_backend_def add_rules_eq
      Map_empty_def Rule_def lru_maxsize_def match_def example_table_def example_s3_def)

lemma example_context_sel:
  "service_name (example_context s p) = s"
  "path (request (example_context s p)) = p"
  "operation (example_context s p) = ''Op''"
  by (simp_all add: example_context_def)

lemma example_dispatch_bad:
  "dispatch_to_moto example_env [] (example_context ''s3'' ''/bad'') =
     (Inr (400, [], ''bad''), [(''s3'', example_table example_s3)],
      (example_context ''s3'' ''/bad'')
        \<lparr>request := moto_request example_env (example_context ''s3'' ''/bad'')\<rparr>)"
  "dispatch_to_moto example_env_no_error [] (example_context ''s3'' ''/bad'') =
     (Inr (400, [], ''bad''), [(''s3'', example_table example_s3)],
      (example_context ''s3'' ''/bad'')
        \<lparr>request := moto_request example_env_no_error (example_context ''s3'' ''/bad'')\<rparr>)"
  by (simp_all add: dispatch_to_moto_def example_context_sel example_get_dispatcher
      example_get_dispatcher_no_error example_bad_request_def Let_def)

lemma example_dispatch_ok:
  "dispatch_to_moto example_env [] (example_context ''s3'' ''/ok'') =
     (Inr (200, [(''Content-Type'', ''application/json'')], ''ok''),
      [(''s3'', example_table example_s3)],
      (example_context ''s3'' ''/ok'')
        \<lparr>request := moto_request example_env (example_context ''s3'' ''/ok'')\<rparr>)"
  by (simp add: dispatch_to_moto_def example_context_sel example_get_dispatcher
      example_ok_def Let_def)

lemma dispatch_to_moto_never_rest:
  "fst (dispatch_to_moto env cache ctx) \<noteq> Inl (RESTError t m c)"
proof (cases "get_dispatcher env cache (service_name ctx) (path (request ctx))")
  case (Pair r cache')
  show ?thesis
  proof (cases r)
    case (Inl e)
    with Pair get_dispatcher_not_rest [of env cache "service_name ctx" "path (request ctx)" t m c]
    show ?thesis by (simp add: dispatch_to_moto_unresolved)
  next
    case (Inr d)
    with Pair show ?thesis
      by (simp add: dispatch_to_moto_resolved split: sum.splits exn.splits)
  qed
qed

lemma dispatch_to_moto_two_outcomes:
  assumes "get_dispatcher env cache (service_name ctx) (path (request ctx)) = (Inr dispatch, cache')"
    and "(\<exists>r. dispatch (moto_request env ctx) (url (moto_request env ctx))
                (headers (moto_request env ctx)) = Inr r) \<or>
         (\<exists>t m c. dispatch (moto_request env ctx) (url (moto_request env ctx))
                (headers (moto_request env ctx)) = Inl (RESTError t m c))"
  shows "(\<exists>r. fst (dispatch_to_moto env cache ctx) = Inr r) \<or>
         (\<exists>c m s. fst (dispatch_to_moto env cache ctx) = Inl (CommonServiceException c m s))"
  using assms(2) by (auto simp: dispatch_to_moto_resolved [OF assms(1)])

text \<open>
  C3, as amended. When the handler that \<open>dispatch_to_moto\<close> invokes raises \<open>RESTError\<close> with
  \<open>error_type\<close>, \<open>message\<close> and \<open>code\<close>, the executor raises
  \<open>CommonServiceException\<close> with that code, message and status. Whatever the cache and
  the context, a \<open>RESTError\<close> is never the outcome of the executor; and whenever the
  invoked handler returns a result or raises \<open>RESTError\<close>, the outcome is a raw result
  or a \<open>CommonServiceException\<close>. An exception of the resolver, and an exception of the
  handler that is no \<open>RESTError\<close>, is the outcome unchanged.
\<close>

theorem dispatch_to_moto_rest_error:
  assumes "get_dispatcher env cache (service_name ctx) (path (request ctx)) = (Inr dispatch, cache')"
    and "dispatch (moto_request env ctx) (url (moto_request env ctx))
           (headers (moto_request env ctx)) = Inl (RESTError error_type message code)"
  shows "fst (dispatch_to_moto env cache ctx) =
           Inl (CommonServiceException (PStr error_type) (PStr message) code) \<and>
         (\<forall>cache2 ctx2 t m c.
            fst (dispatch_to_moto env cache2 ctx2) \<noteq> Inl (RESTError t m c)) \<and>
         (\<forall>cache2 ctx2 d cache3.
            get_dispatcher env cache2 (service_name ctx2) (path (request ctx2)) = (Inr d, cache3) \<and>
            ((\<exists>r. d (moto_request env ctx2) (url (moto_request env ctx2))
                    (headers (moto_request env ctx2)) = Inr r) \<or>
             (\<exists>t m c. d (moto_request env ctx2) (url (moto_request env ctx2))
                    (headers (moto_request env ctx2)) = Inl (RESTError t m c))) \<longrightarrow>
            (\<exists>r. fst (dispatch_to_moto env cache2 ctx2) = Inr r) \<or>
            (\<exists>c m s. fst (dispatch_to_moto env cache2 ctx2) = Inl (CommonServiceException c m s))) \<and>
         (\<forall>cache2 ctx2 e cache3.
            get_dispatcher env cache2 (service_name ctx2) (path (request ctx2)) = (Inl e, cache3) \<longrightarrow>
            fst (dispatch_to_moto env cache2 ctx2) = Inl e) \<and>
         (\<forall>cache2 ctx2 d cache3 e.
            get_dispatcher env cache2 (service_name ctx2) (path (request ctx2)) = (Inr d, cache3) \<and>
            d (moto_request env ctx2) (url (moto_request env ctx2))
              (headers (moto_request env ctx2)) = Inl e \<and>
            (\<forall>t m c. e \<noteq> RESTError t m c) \<longrightarrow>
            fst (dispatch_to_moto env cache2 ctx2) = Inl e)"
proof (intro conjI allI impI)
  show "fst (dispatch_to_moto env cache ctx) =
           Inl (CommonServiceException (PStr error_type) (PStr message) code)"
    by (simp add: dispatch_to_moto_resolved [OF assms(1)] assms(2))
next
  fix cache2 ctx2 t m c
  show "fst (dispatch_to_moto env cache2 ctx2) \<noteq> Inl (RESTError t m c)"
    by (rule dispatch_to_moto_never_rest)
next
  fix cache2 ctx2 d cache3
  assume "get_dispatcher env cache2 (service_name ctx2) (path (request ctx2)) = (Inr d, cache3) \<and>
            ((\<exists>r. d (moto_request env ctx2) (url (moto_request env ctx2))
                    (headers (moto_request env ctx2)) = Inr r) \<or>
             (\<exists>t m c. d (moto_request env ctx2) (url (moto_request env ctx2))
                    (headers (moto_request env ctx2)) = Inl (RESTError t m c)))"
  then show "(\<exists>r. fst (dispatch_to_moto env cache2 ctx2) = Inr r) \<or>
            (\<exists>c m s. fst (dispatch_to_moto env cache2 ctx2) = Inl (CommonServiceException c m s))"
    by (intro dispatch_to_moto_two_outcomes) blast+
next
  fix cache2 and ctx2 :: request_context and e cache3
  assume "get_dispatcher env cache2 (service_name ctx2) (path (request ctx2)) = (Inl e, cache3)"
  then show "fst (dispatch_to_moto env cache2 ctx2) = Inl e"
    by (simp add: dispatch_to_moto_unresolved)
next
  fix cache2 ctx2 d cache3 e
  assume a: "get_dispatcher env cache2 (service_name ctx2) (path (request ctx2)) = (Inr d, cache3) \<and>
            d (moto_request env ctx2) (url (moto_request env ctx2))
              (headers (moto_request env ctx2)) = Inl e \<and>
            (\<forall>t m c. e \<noteq> RESTError t m c)"
  then have "get_dispatcher env cache2 (service_name ctx2) (path (request ctx2)) = (Inr d, cache3)"
    by simp
  from dispatch_to_moto_resolved [OF this] a
  show "fst (dispatch_to_moto env cache2 ctx2) = Inl e"
    by (cases e) simp_all
qed

theorem dispatch_to_moto_rest_error_witness:
  "get_dispatcher example_env [] ''s3'' ''/'' =
     (Inr example_no_such_bucket, [(''s3'', example_table example_s3)]) \<and>
   fst (dispatch_to_moto example_env [] (example_context ''s3'' ''/'')) =
     Inl (CommonServiceException (PStr ''NoSuchBucket'')
            (PStr ''The specified bucket does not exist'') 404)"
proof -
  have g: "get_dispatcher example_env [] (service_name (example_context ''s3'' ''/''))
             (path (request (example_context ''s3'' ''/''))) =
           (Inr example_no_such_bucket, [(''s3'', example_table example_s3)])"
    by (simp add: example_context_sel example_get_dispatcher)
  have h: "example_no_such_bucket (moto_request example_env (example_context ''s3'' ''/''))
             (url (moto_request example_env (example_context ''s3'' ''/'')))
             (headers (moto_request example_env (example_context ''s3'' ''/''))) =
           Inl (RESTError ''NoSuchBucket'' ''The specified bucket does not exist'' 404)"
    by (simp add: example_no_such_bucket_def)
  from dispatch_to_moto_rest_error [OF g h] example_get_dispatcher(3) show ?thesis
    by simp
qed

text \<open>
  The claim C3 as it was stated fails in its last part, that a raw result and a
  \<open>CommonServiceException\<close> are the only outcomes of the executor: only \<open>RESTError\<close>
  is caught (lines 132 to 135), so another exception of the handler passes through, and
  the resolver runs outside the \<open>try\<close> (line 127), so its exception does too.
\<close>

theorem dispatch_to_moto_rest_error_counterexample:
  "fst (dispatch_to_moto example_env [] (example_context ''ec2'' ''/'')) =
     Inl (OtherException ''TypeError'') \<and>
   fst (dispatch_to_moto example_env [] (example_context ''nope'' ''/'')) =
     Inl (KeyError ''nope'')"
proof -
  have "get_dispatcher example_env [] ''ec2'' ''/'' =
      (Inr example_crash,
       [(''ec2'', \<lparr>rules = [\<lparr>url_path = ''/'', endpoint = example_crash, strict_slashes = False\<rparr>],
                  converters = [''regex'']\<rparr>)])"
    by (simp add: get_dispatcher_def get_moto_routing_table_def load_moto_routing_table_def
        example_env_def getitem_def select_backend_def add_rules_eq Map_empty_def Rule_def
        lru_maxsize_def)
  then have crash: "fst (dispatch_to_moto example_env [] (example_context ''ec2'' ''/'')) =
     Inl (OtherException ''TypeError'')"
    by (simp add: dispatch_to_moto_def example_context_sel example_crash_def Let_def)
  have "get_dispatcher example_env [] ''nope'' ''/'' = (Inl (KeyError ''nope''), [])"
    by (simp add: get_dispatcher_def get_moto_routing_table_def load_moto_routing_table_def
        example_env_def getitem_def)
  then have "fst (dispatch_to_moto example_env [] (example_context ''nope'' ''/'')) =
     Inl (KeyError ''nope'')"
    by (simp add: dispatch_to_moto_def example_context_sel)
  with crash show ?thesis by simp
qed

section \<open>The translator\<close>

text \<open>
  C2, as amended. When the raw result has a status of 301 or more and the parsed body
  holds a dict under \<open>Error\<close>, \<open>call_moto\<close> raises \<open>CommonServiceException\<close>: its code is
  the \<open>Code\<close> of that dict, or \<open>UnknownError\<close> when there is none; its message is the
  \<open>Message\<close>, or the empty string when there is none; its status is the raw status. No
  response is returned.
\<close>

theorem call_moto_error_status:
  assumes "dispatch_to_moto env cache ctx = (Inr (st, hs, content), cache', ctx')"
    and "301 \<le> st"
    and "map_of (parse_response env (operation ctx') (Response content st hs)) ''Error''
           = Some (PDict error)"
  shows "fst (call_moto env cache ctx include_response_metadata) =
           Inl (CommonServiceException
                  (case map_of error ''Code'' of None \<Rightarrow> PStr ''UnknownError'' | Some c \<Rightarrow> c)
                  (case map_of error ''Message'' of None \<Rightarrow> PStr [] | Some m \<Rightarrow> m)
                  st) \<and>
         (\<forall>r. fst (call_moto env cache ctx include_response_metadata) \<noteq> Inr r)"
  using assms
  by (simp add: call_moto_def getitem_Some raise_error_def dict_get_def)

theorem call_moto_error_status_witness:
  "dispatch_to_moto example_env [] (example_context ''s3'' ''/bad'') =
     (Inr (400, [], ''bad''), [(''s3'', example_table example_s3)],
      (example_context ''s3'' ''/bad'')
        \<lparr>request := moto_request example_env (example_context ''s3'' ''/bad'')\<rparr>) \<and>
   fst (call_moto example_env [] (example_context ''s3'' ''/bad'') False) =
     Inl (CommonServiceException (PStr ''Foo'') (PStr ''bar'') 400)"
proof -
  have p: "map_of (parse_response example_env
             (operation ((example_context ''s3'' ''/bad'')
                \<lparr>request := moto_request example_env (example_context ''s3'' ''/bad'')\<rparr>))
             (Response ''bad'' 400 [])) ''Error''
           = Some (PDict [(''Code'', PStr ''Foo''), (''Message'', PStr ''bar'')])"
    by (simp add: example_env_def example_parse_response_def Response_def)
  have s: "(301::int) \<le> 400" by simp
  from call_moto_error_status [OF example_dispatch_bad(1) s p, of False] example_dispatch_bad(1)
  show ?thesis by simp
qed

text \<open>
  The claim C2 as it was stated fails: here the raw result has status 400, the parsed
  body has no \<open>Error\<close> entry, and \<open>call_moto\<close> raises \<open>KeyError\<close>.
\<close>

theorem call_moto_error_status_counterexample:
  "dispatch_to_moto example_env_no_error [] (example_context ''s3'' ''/bad'') =
     (Inr (400, [], ''bad''), [(''s3'', example_table example_s3)],
      (example_context ''s3'' ''/bad'')
        \<lparr>request := moto_request example_env_no_error (example_context ''s3'' ''/bad'')\<rparr>) \<and>
   (301::int) \<le> 400 \<and>
   fst (call_moto example_env_no_error [] (example_context ''s3'' ''/bad'') False) =
     Inl (KeyError ''Error'')"
proof -
  have "parse_response example_env_no_error op resp = [(''ResponseMetadata'', PDict [])]"
    for op resp
    by (simp add: example_env_no_error_def)
  then show ?thesis
    by (simp add: example_dispatch_bad(2) call_moto_def getitem_def)
qed

text \<open>
  C10. When the raw result has a status of 301 or more and the parsed body has no
  \<open>Error\<close> key, the lookup of that key fails first: \<open>call_moto\<close> raises \<open>KeyError\<close>
  and no \<open>CommonServiceException\<close>.
\<close>

theorem call_moto_error_key_missing:
  assumes "dispatch_to_moto env cache ctx = (Inr (st, hs, content), cache', ctx')"
    and "301 \<le> st"
    and "''Error'' \<notin> fst ` set (parse_response env (operation ctx') (Response content st hs))"
  shows "fst (call_moto env cache ctx include_response_metadata) = Inl (KeyError ''Error'') \<and>
         (\<forall>c m s. fst (call_moto env cache ctx include_response_metadata)
                     \<noteq> Inl (CommonServiceException c m s))"
proof -
  from assms(3)
  have "map_of (parse_response env (operation ctx') (Response content st hs)) ''Error'' = None"
    by (simp add: map_of_eq_None_iff)
  then have "getitem (parse_response env (operation ctx') (Response content st hs)) ''Error''
      = Inl (KeyError ''Error'')"
    by (rule getitem_None)
  with assms(1,2) show ?thesis
    by (simp add: call_moto_def)
qed

theorem call_moto_error_key_missing_witness:
  "''Error'' \<notin> fst ` set (parse_response example_env_no_error ''Op'' (Response ''bad'' 400 [])) \<and>
   fst (call_moto example_env_no_error [] (example_context ''s3'' ''/bad'') True) =
     Inl (KeyError ''Error'')"
proof -
  have p: "''Error'' \<notin> fst ` set (parse_response example_env_no_error
             (operation ((example_context ''s3'' ''/bad'')
                \<lparr>request := moto_request example_env_no_error (example_context ''s3'' ''/bad'')\<rparr>))
             (Response ''bad'' 400 []))"
    by (simp add: example_env_no_error_def)
  have s: "(301::int) \<le> 400" by simp
  from call_moto_error_key_missing [OF example_dispatch_bad(2) s p, of True] p
  show ?thesis by (simp add: example_env_no_error_def)
qed

lemma map_of_dict_pop: "k' \<noteq> k \<Longrightarrow> map_of (dict_pop d k) k' = map_of d k'"
  unfolding dict_pop_def by (induction d) auto

lemma key_dict_pop: "k \<notin> fst ` set (dict_pop d k)"
  by (auto simp: dict_pop_def)

lemma call_moto_success:
  assumes "dispatch_to_moto env cache ctx = (Inr (st, hs, content), cache', ctx')"
    and "st < 301"
  shows "call_moto env cache ctx include_response_metadata =
     (Inr (if include_response_metadata
           then parse_response env (operation ctx') (Response content st hs)
           else dict_pop (parse_response env (operation ctx') (Response content st hs))
                  ''ResponseMetadata''),
      cache', ctx')"
  using assms by (simp add: call_moto_def)

text \<open>
  C7. When the raw result has status 200, \<open>call_moto\<close> with \<open>include_response_metadata\<close>
  returns the parsed body as it is; without it, it returns the parsed body without its
  \<open>ResponseMetadata\<close> entry, every other entry kept, in order and with its value.
\<close>

theorem call_moto_response_metadata:
  assumes "dispatch_to_moto env cache ctx = (Inr (200, hs, content), cache', ctx')"
    and "parsed = parse_response env (operation ctx') (Response content 200 hs)"
  shows "fst (call_moto env cache ctx True) = Inr parsed \<and>
         fst (call_moto env cache ctx False) =
           Inr (filter (\<lambda>kv. fst kv \<noteq> ''ResponseMetadata'') parsed) \<and>
         (\<forall>r. fst (call_moto env cache ctx False) = Inr r \<longrightarrow>
            ''ResponseMetadata'' \<notin> fst ` set r \<and>
            (\<forall>k. k \<noteq> ''ResponseMetadata'' \<longrightarrow> map_of r k = map_of parsed k))"
proof -
  have full: "fst (call_moto env cache ctx True) = Inr parsed"
    using assms by (simp add: call_moto_success)
  have popped: "fst (call_moto env cache ctx False) = Inr (dict_pop parsed ''ResponseMetadata'')"
    using assms by (simp add: call_moto_success)
  show ?thesis
    using full popped
    by (simp add: key_dict_pop map_of_dict_pop) (simp add: dict_pop_def)
qed

theorem call_moto_response_metadata_witness:
  "fst (call_moto example_env [] (example_context ''s3'' ''/ok'') True) =
     Inr [(''QueueUrl'', PStr ''ok''), (''ResponseMetadata'', PDict [])] \<and>
   fst (call_moto example_env [] (example_context ''s3'' ''/ok'') False) =
     Inr [(''QueueUrl'', PStr ''ok'')]"
proof -
  have p: "[(''QueueUrl'', PStr ''ok''), (''ResponseMetadata'', PDict [])] =
     parse_response example_env
       (operation ((example_context ''s3'' ''/ok'')
          \<lparr>request := moto_request example_env (example_context ''s3'' ''/ok'')\<rparr>))
       (Response ''ok'' 200 [(''Content-Type'', ''application/json'')])"
    by (simp add: example_env_def example_parse_response_def Response_def)
  from call_moto_response_metadata [OF example_dispatch_ok p] show ?thesis
    by simp
qed

section \<open>The call with a modified request\<close>

lemma local_context_eq:
  assumes "new = create_aws_request_context env (service_name ctx) (operation ctx)
                   service_request (region ctx)"
  shows "local_context env ctx service_request =
           new\<lparr>request := (request new)\<lparr>headers := headers (request new) @ headers (request ctx)\<rparr>\<rparr>"
  by (simp add: local_context_def assms Let_def headers_extend_def)

text \<open>
  C8. Let \<open>new\<close> be the context that \<open>create_aws_request_context\<close> builds from the
  service name, the operation and the region of the original context and the new
  parameters. \<open>call_moto_with_request\<close> is \<open>call_moto\<close>, without response metadata, on
  \<open>new\<close> with the headers of the original request appended to its own. So the
  handler is resolved with the service name and the path of \<open>new\<close>; it is called with
  the request \<open>req\<close> of \<open>new\<close>, whose headers are those of \<open>new\<close>, then every header of
  the original request, then the account header; and its raw result is translated as
  \<open>call_moto\<close> does, with the operation of \<open>new\<close>. When the resolver raises, so does the
  call. Every header of the original request is on \<open>req\<close>.
\<close>

theorem call_moto_with_request_headers:
  assumes "new = create_aws_request_context env (service_name ctx) (operation ctx)
                   service_request (region ctx)"
    and "req = (request new)\<lparr>headers := headers (request new) @ headers (request ctx)
                   @ [(''x-moto-account-id'', get_aws_account_id env)]\<rparr>"
    and "parse = (\<lambda>st hs content. parse_response env (operation new) (Response content st hs))"
  shows "call_moto_with_request env cache ctx service_request =
           call_moto env cache
             (new\<lparr>request := (request new)\<lparr>headers :=
                headers (request new) @ headers (request ctx)\<rparr>\<rparr>) False \<and>
         (\<forall>dispatch cache'.
            get_dispatcher env cache (service_name new) (path (request new)) = (Inr dispatch, cache') \<longrightarrow>
            call_moto_with_request env cache ctx service_request =
              (case dispatch req (url req) (headers req) of
                 Inr (st, hs, content) \<Rightarrow>
                   if 301 \<le> st then
                     (case map_of (parse st hs content) ''Error'' of
                        None \<Rightarrow> Inl (KeyError ''Error'')
                      | Some error \<Rightarrow> Inl (raise_error error st))
                   else Inr (filter (\<lambda>kv. fst kv \<noteq> ''ResponseMetadata'') (parse st hs content))
               | Inl (RESTError error_type message code) \<Rightarrow>
                   Inl (CommonServiceException (PStr error_type) (PStr message) code)
               | Inl e \<Rightarrow> Inl e,
               cache', new\<lparr>request := req\<rparr>)) \<and>
         (\<forall>e cache'.
            get_dispatcher env cache (service_name new) (path (request new)) = (Inl e, cache') \<longrightarrow>
            call_moto_with_request env cache ctx service_request =
              (Inl e, cache',
               new\<lparr>request := (request new)\<lparr>headers :=
                 headers (request new) @ headers (request ctx)\<rparr>\<rparr>)) \<and>
         set (headers (request ctx)) \<subseteq> set (headers req)"
proof (intro conjI allI impI)
  let ?lc = "new\<lparr>request := (request new)\<lparr>headers := headers (request new) @ headers (request ctx)\<rparr>\<rparr>"
  have lc: "local_context env ctx service_request = ?lc"
    using assms(1) by (rule local_context_eq)
  have sel: "service_name ?lc = service_name new" "path (request ?lc) = path (request new)"
    by simp_all
  have mr: "moto_request env ?lc = req"
    by (simp add: moto_request_def headers_add_def assms(2))
  have ctx': "?lc\<lparr>request := req\<rparr> = new\<lparr>request := req\<rparr>"
    by simp
  show "call_moto_with_request env cache ctx service_request = call_moto env cache ?lc False"
    by (simp add: call_moto_with_request_def lc)
  show "set (headers (request ctx)) \<subseteq> set (headers req)"
    by (auto simp: assms(2))
  fix cache'
  {
    fix dispatch
    assume "get_dispatcher env cache (service_name new) (path (request new)) = (Inr dispatch, cache')"
    then have g: "get_dispatcher env cache (service_name ?lc) (path (request ?lc)) = (Inr dispatch, cache')"
      by (simp only: sel)
    have d: "dispatch_to_moto env cache ?lc =
       (case dispatch req (url req) (headers req) of
          Inr r \<Rightarrow> Inr r
        | Inl (RESTError error_type message code) \<Rightarrow>
            Inl (CommonServiceException (PStr error_type) (PStr message) code)
        | Inl e \<Rightarrow> Inl e,
        cache', new\<lparr>request := req\<rparr>)"
      by (simp only: dispatch_to_moto_resolved [OF g] mr ctx')
    show "call_moto_with_request env cache ctx service_request =
              (case dispatch req (url req) (headers req) of
                 Inr (st, hs, content) \<Rightarrow>
                   if 301 \<le> st then
                     (case map_of (parse st hs content) ''Error'' of
                        None \<Rightarrow> Inl (KeyError ''Error'')
                      | Some error \<Rightarrow> Inl (raise_error error st))
                   else Inr (filter (\<lambda>kv. fst kv \<noteq> ''ResponseMetadata'') (parse st hs content))
               | Inl (RESTError error_type message code) \<Rightarrow>
                   Inl (CommonServiceException (PStr error_type) (PStr message) code)
               | Inl e \<Rightarrow> Inl e,
               cache', new\<lparr>request := req\<rparr>)"
      unfolding call_moto_with_request_def lc call_moto_def d
      by (simp add: assms(3) getitem_def dict_pop_def split: sum.splits exn.splits option.splits)
  }
  {
    fix e
    assume "get_dispatcher env cache (service_name new) (path (request new)) = (Inl e, cache')"
    then have g: "get_dispatcher env cache (service_name ?lc) (path (request ?lc)) = (Inl e, cache')"
      by (simp only: sel)
    show "call_moto_with_request env cache ctx service_request = (Inl e, cache', ?lc)"
      unfolding call_moto_with_request_def lc call_moto_def
      by (simp add: dispatch_to_moto_unresolved [OF g])
  }
qed

text \<open>
  The original request has the path \<open>/bad\<close>, whose handler answers 400; the new request
  has the path \<open>/ok\<close>, and it is its handler that answers.
\<close>

theorem call_moto_with_request_headers_witness:
  "get_dispatcher example_env [] ''s3'' ''/ok'' =
     (Inr example_ok, [(''s3'', example_table example_s3)]) \<and>
   path (request (example_context ''s3'' ''/bad'')) = ''/bad'' \<and>
   call_moto_with_request example_env [] (example_context ''s3'' ''/bad'') [] =
     (Inr [(''QueueUrl'', PStr ''ok'')], [(''s3'', example_table example_s3)],
      \<lparr>service_name = ''s3'', operation = ''Op'', region = ''eu-west-1'',
       request = \<lparr>http_method = ''POST'', path = ''/ok'', url = ''http://localhost:4566/ok'',
         headers = [(''Content-Type'', ''application/x-amz-json-1.0''),
                    (''Host'', ''localhost:4566''), (''X-Trace'', ''abc''),
                    (''x-moto-account-id'', ''000000000000'')],
         data = []\<rparr>\<rparr>)"
proof -
  have c: "create_aws_request_context example_env = example_create_context"
    and a: "get_aws_account_id example_env = ''000000000000''"
    and p: "parse_response example_env = example_parse_response"
    by (simp_all add: example_env_def)
  have g: "get_dispatcher example_env []
      (service_name (example_create_context ''s3'' ''Op'' [] ''eu-west-1''))
      (path (request (example_create_context ''s3'' ''Op'' [] ''eu-west-1''))) =
     (Inr example_ok, [(''s3'', example_table example_s3)])"
    by (simp add: example_create_context_def example_get_dispatcher)
  from call_moto_with_request_headers [OF refl refl refl, where env = example_env
      and ctx = "example_context ''s3'' ''/bad''" and service_request = "[]" and cache = "[]",
      THEN conjunct2, THEN conjunct1]
  have "call_moto_with_request example_env [] (example_context ''s3'' ''/bad'') [] =
     (Inr [(''QueueUrl'', PStr ''ok'')], [(''s3'', example_table example_s3)],
      \<lparr>service_name = ''s3'', operation = ''Op'', region = ''eu-west-1'',
       request = \<lparr>http_method = ''POST'', path = ''/ok'', url = ''http://localhost:4566/ok'',
         headers = [(''Content-Type'', ''application/x-amz-json-1.0''),
                    (''Host'', ''localhost:4566''), (''X-Trace'', ''abc''),
                    (''x-moto-account-id'', ''000000000000'')],
         data = []\<rparr>\<rparr>)"
    using g
    by (simp add: c a p example_context_sel)
       (simp add: c a p example_create_context_def example_context_def example_ok_def
          example_parse_response_def Response_def)
  with example_get_dispatcher(1) show ?thesis
    by (simp add: example_context_sel)
qed

section \<open>The fallback wrapper\<close>

text \<open>
  C1. For an operation that the provider exposes, the wrapped method of
  \<open>MotoFallbackDispatcher\<close> returns what \<open>proxy_moto\<close> returns on the same cache and
  context when the provider's method raises \<open>NotImplementedError\<close>, that is the
  \<open>HttpResponse\<close> made of the status, the headers and the content of the raw result of
  \<open>dispatch_to_moto\<close>; otherwise it returns what the provider's method returns (or
  raises), and leaves the cache and the context alone.
\<close>

theorem moto_fallback_transparent:
  assumes "prov op = Some fn"
  shows "\<exists>wrapped. MotoFallbackDispatcher env prov op = Some wrapped \<and>
           (fn ctx service_request = Inl NotImplementedError \<longrightarrow>
              wrapped cache ctx service_request = proxy_moto env cache ctx service_request \<and>
              (\<forall>st hs content cache' ctx'.
                 dispatch_to_moto env cache ctx = (Inr (st, hs, content), cache', ctx') \<longrightarrow>
                 wrapped cache ctx service_request =
                   (Inr (HttpResponse \<lparr>response = content, status = st, resp_headers = hs\<rparr>),
                    cache', ctx'))) \<and>
           (fn ctx service_request \<noteq> Inl NotImplementedError \<longrightarrow>
              wrapped cache ctx service_request = (fn ctx service_request, cache, ctx))"
  using assms
  by (auto simp: MotoFallbackDispatcher_def ForwardingFallbackDispatcher_def proxy_moto_def
      split: sum.splits exn.splits)

theorem moto_fallback_transparent_witness:
  "example_provider ''CreateQueue'' = Some (\<lambda>context service_request. Inl NotImplementedError) \<and>
   the (MotoFallbackDispatcher example_env example_provider ''ListQueues'') []
       (example_context ''s3'' ''/ok'') [] =
     (Inr (ServiceResponse [(''QueueUrls'', PList [])]), [], example_context ''s3'' ''/ok'') \<and>
   the (MotoFallbackDispatcher example_env example_provider ''CreateQueue'') []
       (example_context ''s3'' ''/ok'') [] =
     proxy_moto example_env [] (example_context ''s3'' ''/ok'') [] \<and>
   fst (the (MotoFallbackDispatcher example_env example_provider ''CreateQueue'') []
       (example_context ''s3'' ''/ok'') []) =
     Inr (HttpResponse \<lparr>response = ''ok'', status = 200,
            resp_headers = [(''Content-Type'', ''application/json'')]\<rparr>)"
proof -
  have p: "example_provider ''CreateQueue'' = Some (\<lambda>context service_request. Inl NotImplementedError)"
    by (simp add: example_provider_def)
  from moto_fallback_transparent [where prov = example_provider and op = "''CreateQueue''"
      and fn = "\<lambda>context service_request. Inl NotImplementedError" and env = example_env
      and ctx = "example_context ''s3'' ''/ok''" and cache = "[]" and service_request = "[]"] p
  obtain wrapped where
    w: "MotoFallbackDispatcher example_env example_provider ''CreateQueue'' = Some wrapped"
    and f: "wrapped [] (example_context ''s3'' ''/ok'') [] =
              proxy_moto example_env [] (example_context ''s3'' ''/ok'') []"
    by auto
  have "fst (proxy_moto example_env [] (example_context ''s3'' ''/ok'') []) =
     Inr (HttpResponse \<lparr>response = ''ok'', status = 200,
            resp_headers = [(''Content-Type'', ''application/json'')]\<rparr>)"
    by (simp add: proxy_moto_def example_dispatch_ok)
  moreover
  have q: "example_provider ''ListQueues'' =
     Some (\<lambda>context service_request. Inr (ServiceResponse [(''QueueUrls'', PList [])]))"
    by (simp add: example_provider_def)
  from moto_fallback_transparent [where prov = example_provider and op = "''ListQueues''"
      and fn = "\<lambda>context service_request. Inr (ServiceResponse [(''QueueUrls'', PList [])])"
      and env = example_env and ctx = "example_context ''s3'' ''/ok''" and cache = "[]"
      and service_request = "[]"] q
  have "the (MotoFallbackDispatcher example_env example_provider ''ListQueues'') []
       (example_context ''s3'' ''/ok'') [] =
     (Inr (ServiceResponse [(''QueueUrls'', PList [])]), [], example_context ''s3'' ''/ok'')"
    by auto
  ultimately show ?thesis using p w f by simp
qed

section \<open>The cache, call after call\<close>


lemma map_of_filter_same: "map_of (filter (\<lambda>kv. fst kv \<noteq> k) d) k = None"
  by (induction d) auto


lemma keys_filter: "fst ` set (filter (\<lambda>kv. fst kv \<noteq> k) d) = fst ` set d - {k}"
  by auto
























end
